theory Spec2Isabelle
  imports Main "HOL-Library.Sublist"
begin

section \<open>Python strings\<close>

text \<open>
  The summarizer of \<^verbatim>\<open>app.py\<close> works on Python strings, which are sequences of Unicode
  code points. A string is modelled as the list of its code points, which are integers;
  \<open>ascii\<close> turns a literal into such a list. Whitespace is the fixed set of characters that
  \<^verbatim>\<open>str.isspace\<close>, \<^verbatim>\<open>str.split\<close> and \<^verbatim>\<open>str.strip\<close> recognize. Which characters beyond
  ASCII are letters, and the lower-case form of text that has such characters, are tables
  of the interpreter: the model takes them as the parameter \<open>py\<close>, and the theorems hold
  for every value of it.
\<close>

type_synonym str = "int list"

definition ascii :: "string \<Rightarrow> str" where
  "ascii s = map of_char s"

definition isspace :: "int \<Rightarrow> bool" where
  \<comment> \<open>\<^verbatim>\<open>c.isspace()\<close>: TAB to CR, FS to US, the space, U+0085, U+00A0, U+1680, U+2000 to
      U+200A, U+2028, U+2029, U+202F, U+205F and U+3000.\<close>
  "isspace c =
     ((9 \<le> c \<and> c \<le> 13) \<or> (28 \<le> c \<and> c \<le> 32) \<or> c = 133 \<or> c = 160 \<or> c = 5760
      \<or> (8192 \<le> c \<and> c \<le> 8202) \<or> c = 8232 \<or> c = 8233 \<or> c = 8239 \<or> c = 8287
      \<or> c = 12288)"

record unicode =
  alphabetic :: "int \<Rightarrow> bool"
  lowercase :: "str \<Rightarrow> str"

definition isalpha_char :: "unicode \<Rightarrow> int \<Rightarrow> bool" where
  \<comment> \<open>a letter: A to Z and a to z, and beyond ASCII what the interpreter's table says.\<close>
  "isalpha_char py c =
     (if c < 128 then (65 \<le> c \<and> c \<le> 90) \<or> (97 \<le> c \<and> c \<le> 122) else alphabetic py c)"

definition lower_ascii :: "int \<Rightarrow> int" where
  "lower_ascii c = (if 65 \<le> c \<and> c \<le> 90 then c + 32 else c)"

definition lower :: "unicode \<Rightarrow> str \<Rightarrow> str" where
  \<comment> \<open>\<^verbatim>\<open>s.lower()\<close>: on ASCII text A to Z become a to z; other text is folded by the
      interpreter's table.\<close>
  "lower py s = (if list_all (\<lambda>c. c < 128) s then map lower_ascii s else lowercase py s)"

definition isalpha :: "unicode \<Rightarrow> str \<Rightarrow> bool" where
  \<comment> \<open>\<^verbatim>\<open>s.isalpha()\<close>: every character is a letter and there is at least one.\<close>
  "isalpha py s = (s \<noteq> [] \<and> list_all (isalpha_char py) s)"

fun split_from :: "str \<Rightarrow> str \<Rightarrow> str list" where
  \<comment> \<open>the scan of \<^verbatim>\<open>s.split()\<close>: the first argument is the word read so far.\<close>
  "split_from w [] = (if w = [] then [] else [w])"
| "split_from w (c # cs) =
     (if isspace c then (if w = [] then split_from [] cs else w # split_from [] cs)
      else split_from (w @ [c]) cs)"

definition split :: "str \<Rightarrow> str list" where
  \<comment> \<open>\<^verbatim>\<open>s.split()\<close>: the maximal runs of non-whitespace characters.\<close>
  "split s = split_from [] s"

definition strip :: "str \<Rightarrow> str" where
  \<comment> \<open>\<^verbatim>\<open>s.strip()\<close>\<close>
  "strip s = rev (dropWhile isspace (rev (dropWhile isspace s)))"

fun join :: "str \<Rightarrow> str list \<Rightarrow> str" where
  \<comment> \<open>\<^verbatim>\<open>sep.join(xs)\<close>\<close>
  "join sep [] = []"
| "join sep [x] = x"
| "join sep (x # y # ys) = x @ sep @ join sep (y # ys)"

fun contains :: "str \<Rightarrow> str \<Rightarrow> bool" where
  \<comment> \<open>\<^verbatim>\<open>sub in s\<close> on strings: \<open>contains s sub\<close> holds when \<open>sub\<close> occurs in \<open>s\<close> as a
      contiguous run.\<close>
  "contains [] sub = (sub = [])"
| "contains (c # cs) sub = (prefix sub (c # cs) \<or> contains cs sub)"

fun str_nat :: "nat \<Rightarrow> str" where
  \<comment> \<open>\<^verbatim>\<open>str(n)\<close>, the decimal digits of a count, as an f-string field prints it.\<close>
  "str_nat n = (if n < 10 then [48 + int n] else str_nat (n div 10) @ [48 + int (n mod 10)])"

declare str_nat.simps [simp del]

definition newline :: str where
  "newline = [10]"

definition bullet :: str where
  \<comment> \<open>the character U+2022 of the source's \<^verbatim>\<open>"\<bullet> "\<close>.\<close>
  "bullet = [8226]"

section \<open>Library operations the summarizer calls\<close>

text \<open>
  The tokenizers are those of the NLTK package (\<^verbatim>\<open>word_tokenize\<close> and
  \<^verbatim>\<open>sent_tokenize\<close>). They are not part of the repository: the model takes them as
  parameters, and every theorem below holds for whatever functions they are. They are
  taken to return a value; so the handlers of \<^verbatim>\<open>generate_summary\<close> and
  \<^verbatim>\<open>ask_question\<close>, which turn an exception into an error str, have nothing to catch
  and are left out. \<^verbatim>\<open>Counter\<close>, \<^verbatim>\<open>most_common\<close> and the sort are those of Python's
  standard library, modelled as documented: a dictionary keeps insertion order and the
  sort is stable.
\<close>

record nltk =
  word_tokenize :: "str \<Rightarrow> str list"
  sent_tokenize :: "str \<Rightarrow> str list"

fun counter_add :: "str \<Rightarrow> (str \<times> int) list \<Rightarrow> (str \<times> int) list" where
  \<comment> \<open>\<^verbatim>\<open>counts[w] += 1\<close> on a dictionary that keeps its keys in insertion order.\<close>
  "counter_add w [] = [(w, 1)]"
| "counter_add w ((k, c) # kcs) =
     (if k = w then (k, c + 1) # kcs else (k, c) # counter_add w kcs)"

definition Counter :: "str list \<Rightarrow> (str \<times> int) list" where
  \<comment> \<open>\<^verbatim>\<open>Counter(words)\<close>: the items of the dictionary, in the order of their keys' insertion.\<close>
  "Counter words = fold counter_add words []"

definition sorted_reverse :: "('a \<Rightarrow> int) \<Rightarrow> 'a list \<Rightarrow> 'a list" where
  \<comment> \<open>\<^verbatim>\<open>sorted(xs, key=key, reverse=True)\<close> and \<^verbatim>\<open>xs.sort(reverse=True, key=key)\<close>: the list is
      reversed, sorted by a stable ascending sort and reversed again.\<close>
  "sorted_reverse key xs = rev (sort_key key (rev xs))"

definition most_common :: "nat \<Rightarrow> (str \<times> int) list \<Rightarrow> (str \<times> int) list" where
  \<comment> \<open>\<^verbatim>\<open>counter.most_common(n)\<close>, which is \<^verbatim>\<open>sorted(items, key=itemgetter(1), reverse=True)[:n]\<close>.\<close>
  "most_common n items = take n (sorted_reverse snd items)"

definition last_n :: "nat \<Rightarrow> 'a list \<Rightarrow> 'a list" where
  \<comment> \<open>the slice \<^verbatim>\<open>xs[-n:]\<close> for a positive \<open>n\<close>.\<close>
  "last_n n xs = drop (length xs - n) xs"

section \<open>The summarizer\<close>

record summarizer =
  documents :: "str list"
  processed_text :: str
  stop_words :: "str set"

text \<open>
  What the loaders make of one uploaded file: the page contents of a PDF, or the decoded
  content of a text file; \<open>None\<close> when loading or decoding raised.
\<close>

datatype uploaded_file = Pdf "str list option" | Txt "str option"

fun read_file :: "uploaded_file \<Rightarrow> str list \<Rightarrow> str list" where
  \<comment> \<open>the body of the loop over the uploaded files; an exception skips the file.\<close>
  "read_file (Pdf (Some docs)) all_text = fold (\<lambda>doc all_text. all_text @ [doc]) docs all_text"
| "read_file (Pdf None) all_text = all_text"
| "read_file (Txt (Some text_content)) all_text = all_text @ [text_content]"
| "read_file (Txt None) all_text = all_text"

definition process_documents ::
  "nltk \<Rightarrow> summarizer \<Rightarrow> uploaded_file list \<Rightarrow> bool \<times> summarizer" where
  "process_documents nl self uploaded_files =
     (let all_text = fold read_file uploaded_files [] in
      if all_text = [] then (False, self)
      else
        let combined_text = join (newline @ newline) all_text;
            text = join (ascii '' '') (split combined_text);
            raw_sentences = sent_tokenize nl text
        in (True, self\<lparr>documents :=
                          [join (ascii '' '') (split sentence). sentence \<leftarrow> raw_sentences,
                             strip sentence \<noteq> []],
                        processed_text := text\<rparr>))"

definition keyword_score :: "unicode \<Rightarrow> str list \<Rightarrow> str \<Rightarrow> int" where
  \<comment> \<open>\<^verbatim>\<open>sum(1 for word in words if word.lower() in sentence.lower())\<close>\<close>
  "keyword_score py words sentence =
     sum_list [1. word \<leftarrow> words, contains (lower py sentence) (lower py word)]"

definition vocabulary_score :: "unicode \<Rightarrow> str list \<Rightarrow> str \<Rightarrow> int" where
  \<comment> \<open>\<^verbatim>\<open>sum(1 for keyword in keywords if keyword in sentence.lower())\<close>\<close>
  "vocabulary_score py keywords sentence =
     sum_list [1. keyword \<leftarrow> keywords, contains (lower py sentence) keyword]"

definition clean :: "str \<Rightarrow> str" where
  \<comment> \<open>\<^verbatim>\<open>' '.join(sentence.strip().split())\<close>\<close>
  "clean sentence = join (ascii '' '') (split (strip sentence))"

definition top_terms :: "nat \<Rightarrow> str list \<Rightarrow> str list" where
  \<comment> \<open>\<^verbatim>\<open>[word for word, _ in Counter(words).most_common(n)]\<close>\<close>
  "top_terms n words = (let word_freq = Counter words in [word. (word, _) \<leftarrow> most_common n word_freq])"

definition top_words :: "unicode \<Rightarrow> nltk \<Rightarrow> summarizer \<Rightarrow> str list" where
  "top_words py nl self =
     (let words = word_tokenize nl (lower py (processed_text self));
          words = [w \<leftarrow> words. isalpha py w \<and> w \<notin> stop_words self \<and> length w > 3]
      in top_terms 10 words)"

definition rank_sentences ::
  "unicode \<Rightarrow> (int \<Rightarrow> bool) \<Rightarrow> str list \<Rightarrow> str list \<Rightarrow> (int \<times> str) list" where
  \<comment> \<open>the scoring loop and the sort that \<^verbatim>\<open>_extract_key_points\<close> (keeping \<^verbatim>\<open>score >= 2\<close>)
      and \<^verbatim>\<open>ask_question\<close> (keeping \<^verbatim>\<open>score > 0\<close>) both run.\<close>
  "rank_sentences py keep words docs =
     (let key_sentences =
            fold (\<lambda>sentence key_sentences.
                    let score = keyword_score py words sentence in
                    if keep score then key_sentences @ [(score, sentence)] else key_sentences)
                 docs []
      in sorted_reverse fst key_sentences)"

definition extract_key_points :: "unicode \<Rightarrow> nltk \<Rightarrow> summarizer \<Rightarrow> str" where
  "extract_key_points py nl self =
     (let top_words' = top_words py nl self;
          key_sentences = rank_sentences py (\<lambda>score. score \<ge> 2) top_words' (documents self);
          summary = ascii ''**KEY POINTS:**'' @ newline @ newline
      in fold (\<lambda>(i, (_, sentence)) summary.
                 summary @ str_nat i @ ascii ''. '' @ clean sentence @ newline @ newline)
              (List.enumerate 1 (take 5 key_sentences)) summary)"

definition method_keywords :: "str list" where
  "method_keywords =
     [ascii ''method'', ascii ''approach'', ascii ''technique'', ascii ''procedure'', ascii ''analysis'',
      ascii ''experiment'', ascii ''study'', ascii ''research'', ascii ''data'', ascii ''sample'']"

definition extract_methodology :: "unicode \<Rightarrow> summarizer \<Rightarrow> str" where
  "extract_methodology py self =
     (let method_sentences =
            fold (\<lambda>sentence method_sentences.
                    let score = vocabulary_score py method_keywords sentence in
                    if score \<ge> 1 then method_sentences @ [sentence] else method_sentences)
                 (documents self) []
      in if method_sentences = []
         then ascii ''No clear methodology sections found in the documents.''
         else
           let summary = ascii ''**METHODOLOGY:**'' @ newline @ newline
           in fold (\<lambda>(i, sentence) summary.
                      summary @ bullet @ ascii '' '' @ clean sentence @ newline @ newline)
                   (List.enumerate 1 (take 7 method_sentences)) summary)"

definition finding_keywords :: "str list" where
  "finding_keywords =
     [ascii ''result'', ascii ''finding'', ascii ''conclusion'', ascii ''outcome'', ascii ''evidence'',
      ascii ''showed'', ascii ''demonstrated'', ascii ''found'', ascii ''discovered'', ascii ''revealed'']"

definition extract_findings :: "unicode \<Rightarrow> summarizer \<Rightarrow> str" where
  "extract_findings py self =
     (let finding_sentences =
            fold (\<lambda>sentence finding_sentences.
                    let score = vocabulary_score py finding_keywords sentence in
                    if score \<ge> 1 then finding_sentences @ [sentence] else finding_sentences)
                 (documents self) []
      in if finding_sentences = []
         then ascii ''No clear findings sections found in the documents.''
         else
           let summary = ascii ''**FINDINGS & RESULTS:**'' @ newline @ newline
           in fold (\<lambda>(i, sentence) summary.
                      summary @ bullet @ ascii '' '' @ clean sentence @ newline @ newline)
                   (List.enumerate 1 (take 7 finding_sentences)) summary)"

definition extract_comprehensive :: "unicode \<Rightarrow> nltk \<Rightarrow> summarizer \<Rightarrow> str" where
  "extract_comprehensive py nl self =
     (let total_sentences = length (documents self);
          total_words = length (word_tokenize nl (processed_text self));
          important_sentences = [];
          important_sentences =
            (if total_sentences > 0
             then
               let important_sentences = important_sentences @ take 2 (documents self)
               in if total_sentences > 4
                  then important_sentences @ last_n 2 (documents self)
                  else important_sentences
             else important_sentences);
          key_points = extract_key_points py nl self;
          summary = ascii ''**COMPREHENSIVE SUMMARY**'' @ newline @ newline;
          summary = summary @ ascii ''*Document Statistics: '' @ str_nat total_sentences
                      @ ascii '' sentences, '' @ str_nat total_words @ ascii '' words*'' @ newline @ newline;
          summary = summary @ ascii ''**Overview:**'' @ newline;
          summary = fold (\<lambda>sentence summary.
                            summary @ bullet @ ascii '' '' @ clean sentence @ newline @ newline)
                         (take 3 important_sentences) summary
      in summary @ key_points)"

definition generate_summary :: "unicode \<Rightarrow> nltk \<Rightarrow> summarizer \<Rightarrow> str \<Rightarrow> str" where
  "generate_summary py nl self summary_type =
     (if documents self = [] then ascii ''No documents processed yet.''
      else if summary_type = ascii ''key_points'' then extract_key_points py nl self
      else if summary_type = ascii ''methodology'' then extract_methodology py self
      else if summary_type = ascii ''findings'' then extract_findings py self
      else extract_comprehensive py nl self)"

definition question_words :: "unicode \<Rightarrow> nltk \<Rightarrow> summarizer \<Rightarrow> str \<Rightarrow> str list" where
  "question_words py nl self question =
     (let question_words' = word_tokenize nl (lower py question)
      in [w \<leftarrow> question_words'. isalpha py w \<and> w \<notin> stop_words self])"

definition ask_question :: "unicode \<Rightarrow> nltk \<Rightarrow> summarizer \<Rightarrow> str \<Rightarrow> str" where
  "ask_question py nl self question =
     (if documents self = [] then ascii ''No documents processed yet.''
      else
        let question_words' = question_words py nl self question in
        if question_words' = [] then ascii ''Please ask a more specific question with keywords.''
        else
          let relevant_sentences =
                rank_sentences py (\<lambda>score. score > 0) question_words' (documents self)
          in if relevant_sentences = []
             then ascii ''No relevant information found for your question.''
             else
               let answer = ascii ''**Answer to: '' @ question @ ascii ''**'' @ newline @ newline;
                   answer = answer @ ascii ''Based on the document content:'' @ newline @ newline
               in fold (\<lambda>(i, (_, sentence)) answer.
                          answer @ str_nat i @ ascii ''. '' @ clean sentence @ newline @ newline)
                       (List.enumerate 1 (take 5 relevant_sentences)) answer)"

section \<open>Notions of the specification\<close>

definition numbered_list :: "str list \<Rightarrow> str" where
  \<comment> \<open>a numbered list: item \<open>i\<close>, counted from 1, is \<^verbatim>\<open>"{i}. {sentence}\n\n"\<close>.\<close>
  "numbered_list xs =
     concat [str_nat i @ ascii ''. '' @ s @ newline @ newline. (i, s) \<leftarrow> List.enumerate 1 xs]"

definition bulleted_list :: "str list \<Rightarrow> str" where
  \<comment> \<open>a bulleted list: each item is the bullet, a space, the sentence and an empty line.\<close>
  "bulleted_list xs = concat [bullet @ ascii '' '' @ s @ newline @ newline. s \<leftarrow> xs]"

fun first_seen :: "'a list \<Rightarrow> 'a list" where
  \<comment> \<open>the distinct elements of a sequence, in the order in which they are first encountered.\<close>
  "first_seen [] = []"
| "first_seen (x # xs) = x # [y \<leftarrow> first_seen xs. y \<noteq> x]"

definition occurrences :: "str list \<Rightarrow> str \<Rightarrow> int" where
  "occurrences tokens w = int (count_list tokens w)"

definition overview_sentences :: "str list \<Rightarrow> str list" where
  \<comment> \<open>the first 2 sentences plus, when the corpus has more than 4 sentences, its last 2,
      capped to the first 3 of the combined list.\<close>
  "overview_sentences docs =
     take 3 (take 2 docs @ (if length docs > 4 then last_n 2 docs else []))"

definition keyword_set_score :: "unicode \<Rightarrow> str list \<Rightarrow> str \<Rightarrow> int" where
  \<comment> \<open>the score against the set of keywords: each distinct keyword counts at most once.\<close>
  "keyword_set_score py words sentence = keyword_score py (remdups words) sentence"




definition key_point_sentences :: "unicode \<Rightarrow> nltk \<Rightarrow> summarizer \<Rightarrow> str list" where
  \<comment> \<open>the sentences of the key-points block: the top 5 of the ranking against the top 10
      frequency terms with minimum score 2, each normalized.\<close>
  "key_point_sentences py nl self =
     map (clean \<circ> snd)
       (take 5 (rank_sentences py (\<lambda>score. score \<ge> 2) (top_words py nl self) (documents self)))"

definition vocabulary_sentences :: "unicode \<Rightarrow> str list \<Rightarrow> str list \<Rightarrow> str list" where
  \<comment> \<open>the first 7 sentences, in corpus order, that score at least 1 against a vocabulary.\<close>
  "vocabulary_sentences py vocabulary docs = take 7 [s \<leftarrow> docs. vocabulary_score py vocabulary s \<ge> 1]"

definition statistics_header :: "nat \<Rightarrow> nat \<Rightarrow> str" where
  \<comment> \<open>the header of the comprehensive summary with the document statistics.\<close>
  "statistics_header total_sentences total_words =
     ascii ''**COMPREHENSIVE SUMMARY**'' @ newline @ newline
       @ ascii ''*Document Statistics: '' @ str_nat total_sentences @ ascii '' sentences, ''
       @ str_nat total_words @ ascii '' words*'' @ newline @ newline"

definition answer_by_keyword_set :: "unicode \<Rightarrow> nltk \<Rightarrow> summarizer \<Rightarrow> str \<Rightarrow> str" where
  \<comment> \<open>the answer when each sentence is scored against the set of the question's keywords:
      sentences with score at least 1, ranked descending and stably, the top 5 as a
      numbered list under the header that echoes the question.\<close>
  "answer_by_keyword_set py nl self question =
     (let kws = question_words py nl self question;
          ranked = sorted_reverse fst
                     [(keyword_set_score py kws s, s). s \<leftarrow> documents self, keyword_set_score py kws s \<ge> 1]
      in if ranked = [] then ascii ''No relevant information found for your question.''
         else ascii ''**Answer to: '' @ question @ ascii ''**'' @ newline @ newline
                @ ascii ''Based on the document content:'' @ newline @ newline
                @ numbered_list (map (clean \<circ> snd) (take 5 ranked)))"

section \<open>Example inputs\<close>

definition latin1 :: unicode where
  \<comment> \<open>the interpreter's tables on the characters up to U+00FF, which is all that the
      examples use.\<close>
  "latin1 =
     \<lparr>alphabetic = (\<lambda>c. c = 170 \<or> c = 181 \<or> c = 186 \<or> (192 \<le> c \<and> c \<le> 214)
                          \<or> (216 \<le> c \<and> c \<le> 246) \<or> (248 \<le> c \<and> c \<le> 255)),
      lowercase = map (\<lambda>c. if (65 \<le> c \<and> c \<le> 90) \<or> (192 \<le> c \<and> c \<le> 214)
                                \<or> (216 \<le> c \<and> c \<le> 222)
                             then c + 32 else c)\<rparr>"

definition simple_nltk :: nltk where
  \<comment> \<open>what the tokenizers return on text made of words of letters and spaces, which has
      no punctuation: the words, and the whole text as one sentence.\<close>
  "simple_nltk = \<lparr>word_tokenize = split, sent_tokenize = (\<lambda>text. if text = [] then [] else [text])\<rparr>"

definition unprocessed :: summarizer where
  \<comment> \<open>the summarizer as \<^verbatim>\<open>__init__\<close> leaves it, with a small stop-word set.\<close>
  "unprocessed = \<lparr>documents = [], processed_text = [], stop_words = {ascii ''the'', ascii ''is'', ascii ''of'', ascii ''what''}\<rparr>"

definition pets :: summarizer where
  "pets = \<lparr>documents = [ascii ''dogs bark'', ascii ''cats purr''],
           processed_text = ascii ''dogs bark cats purr'',
           stop_words = {ascii ''the'', ascii ''is'', ascii ''of'', ascii ''what''}\<rparr>"

definition cafe :: summarizer where
  \<comment> \<open>a corpus with the letter U+00E9.\<close>
  "cafe = \<lparr>documents = [ascii ''le caf'' @ [233] @ ascii '' ferme'', ascii ''dogs bark''],
           processed_text = ascii ''le caf'' @ [233] @ ascii '' ferme dogs bark'',
           stop_words = {ascii ''the'', ascii ''is'', ascii ''of'', ascii ''what''}\<rparr>"

definition cat_corpus :: "str list" where
  "cat_corpus = [ascii ''The cat sat on the mat.'', ascii ''Dogs are loyal animals.'', ascii ''The cat and the dog played.'']"

definition lab_notes :: summarizer where
  "lab_notes = \<lparr>documents = [ascii ''we found data'', ascii ''cats purr'', ascii ''the method showed results'',
                        ascii ''dogs bark'', ascii ''birds sing''],
            processed_text =
              ascii ''we found data cats purr the method showed results dogs bark birds sing'',
            stop_words = {ascii ''the'', ascii ''is'', ascii ''of'', ascii ''what''}\<rparr>"


section \<open>Loops, sorting and ranking\<close>

lemma ascii_eq_iff [simp]: "ascii a = ascii b \<longleftrightarrow> a = b"
  by (simp add: ascii_def inj_map_eq_map [OF inj_of_char])

lemma ascii_Nil_iff [simp]: "ascii a = [] \<longleftrightarrow> a = []"
  by (simp add: ascii_def)


lemma contains_sublist: "contains s sub \<longleftrightarrow> sublist sub s"
  by (induction s) (simp_all add: sublist_Cons_right)

lemma fold_select:
  "fold (\<lambda>x acc. if P x then acc @ [g x] else acc) xs acc = acc @ map g (filter P xs)"
  by (induction xs arbitrary: acc) simp_all

lemma rank_sentences_eq:
  "rank_sentences py keep words docs =
     sorted_reverse fst [(keyword_score py words s, s). s \<leftarrow> docs, keep (keyword_score py words s)]"
proof -
  have "fold (\<lambda>sentence acc. if keep (keyword_score py words sentence)
                 then acc @ [(keyword_score py words sentence, sentence)] else acc) docs []
        = map (\<lambda>s. (keyword_score py words s, s)) (filter (\<lambda>s. keep (keyword_score py words s)) docs)"
    by (simp add: fold_select)
  moreover have "[(keyword_score py words s, s). s \<leftarrow> docs, keep (keyword_score py words s)]
     = map (\<lambda>s. (keyword_score py words s, s)) (filter (\<lambda>s. keep (keyword_score py words s)) docs)"
    by (induction docs) simp_all
  ultimately show ?thesis
    by (simp add: rank_sentences_def Let_def)
qed

lemma sorted_reverse_descending:
  "sorted_wrt (\<lambda>a b. key a \<ge> key b) (sorted_reverse key xs)"
proof -
  have "sorted (map key (sort_key key (rev xs)))" by simp
  then have "sorted_wrt (\<lambda>a b. key a \<le> key b) (sort_key key (rev xs))"
    by (simp add: sorted_map)
  then show ?thesis
    unfolding sorted_reverse_def by (simp add: sorted_wrt_rev)
qed

lemma sorted_reverse_stable:
  "[x \<leftarrow> sorted_reverse key xs. key x = k] = [x \<leftarrow> xs. key x = k]"
  unfolding sorted_reverse_def
  by (simp add: rev_filter [symmetric] sort_key_stable)

lemma set_sorted_reverse: "set (sorted_reverse key xs) = set xs"
  by (simp add: sorted_reverse_def)

lemma length_sorted_reverse: "length (sorted_reverse key xs) = length xs"
  by (simp add: sorted_reverse_def)

lemma sorted_reverse_Nil_iff: "sorted_reverse key xs = [] \<longleftrightarrow> xs = []"
  using length_sorted_reverse [of key xs] by (metis length_0_conv)

lemma distinct_sorted_reverse: "distinct (sorted_reverse key xs) = distinct xs"
  by (simp add: sorted_reverse_def)

lemma rank_three:
  assumes "keyword_score py words s0 = keyword_score py words s2"
    and "keyword_score py words s1 < keyword_score py words s0"
  shows "map snd (rank_sentences py keep words [s0, s1, s2]) =
           [s \<leftarrow> [s0, s2, s1]. keep (keyword_score py words s)]"
  using assms by (simp add: rank_sentences_eq sorted_reverse_def)

lemma rank_cat_corpus:
  "rank_sentences py (\<lambda>score. score \<ge> 1) [ascii ''cat'', ascii ''dog''] cat_corpus =
     [(2, ascii ''The cat and the dog played.''), (1, ascii ''The cat sat on the mat.''),
      (1, ascii ''Dogs are loyal animals.'')]"
  by code_simp

text \<open>
  C2. Ranking sorts the retained (score, sentence) pairs in descending order of score and
  is stable: the pairs of any one score appear in the order of the corpus. For a corpus
  of three sentences where the first and the third score the same and more than the
  second, the retained sentences come out as first, third, second. On the corpus about
  cats and dogs with the keywords cat and dog and minimum score 1, the sentence that
  scores 2 comes first and the two that score 1 follow in corpus order.
\<close>

theorem rank_sentences_descending_stable:
  "sorted_wrt (\<lambda>p q. fst p \<ge> fst q) (rank_sentences py keep words docs)
   \<and> (\<forall>k. [p \<leftarrow> rank_sentences py keep words docs. fst p = k] =
            [p \<leftarrow> [(keyword_score py words s, s). s \<leftarrow> docs, keep (keyword_score py words s)].
               fst p = k])
   \<and> set (rank_sentences py keep words docs) =
       set [(keyword_score py words s, s). s \<leftarrow> docs, keep (keyword_score py words s)]
   \<and> length (rank_sentences py keep words docs) =
       length [s \<leftarrow> docs. keep (keyword_score py words s)]
   \<and> (keyword_score py words s0 = keyword_score py words s2 \<and>
        keyword_score py words s1 < keyword_score py words s0 \<longrightarrow>
        map snd (rank_sentences py keep words [s0, s1, s2]) =
          [s \<leftarrow> [s0, s2, s1]. keep (keyword_score py words s)])
   \<and> (keyword_score py words s0 = keyword_score py words s2 \<and>
        keyword_score py words s1 < keyword_score py words s0 \<and>
        keep (keyword_score py words s0) \<and> keep (keyword_score py words s1) \<longrightarrow>
        map snd (rank_sentences py keep words [s0, s1, s2]) = [s0, s2, s1])
   \<and> [(s, score). (score, s) \<leftarrow> rank_sentences py (\<lambda>score. score \<ge> 1) [ascii ''cat'', ascii ''dog''] cat_corpus] =
       [(ascii ''The cat and the dog played.'', 2), (ascii ''The cat sat on the mat.'', 1),
        (ascii ''Dogs are loyal animals.'', 1)]"
proof (intro conjI allI impI)
  show "sorted_wrt (\<lambda>p q. fst p \<ge> fst q) (rank_sentences py keep words docs)"
    by (simp only: rank_sentences_eq sorted_reverse_descending)
next
  fix k
  show "[p \<leftarrow> rank_sentences py keep words docs. fst p = k] =
          [p \<leftarrow> [(keyword_score py words s, s). s \<leftarrow> docs, keep (keyword_score py words s)].
             fst p = k]"
    by (simp only: rank_sentences_eq sorted_reverse_stable)
next
  show "set (rank_sentences py keep words docs) =
          set [(keyword_score py words s, s). s \<leftarrow> docs, keep (keyword_score py words s)]"
    by (simp only: rank_sentences_eq set_sorted_reverse)
next
  have "length [(keyword_score py words s, s). s \<leftarrow> docs, keep (keyword_score py words s)] =
          length [s \<leftarrow> docs. keep (keyword_score py words s)]"
    by (induction docs) simp_all
  then show "length (rank_sentences py keep words docs) =
          length [s \<leftarrow> docs. keep (keyword_score py words s)]"
    by (simp only: rank_sentences_eq length_sorted_reverse)
next
  assume "keyword_score py words s0 = keyword_score py words s2 \<and>
          keyword_score py words s1 < keyword_score py words s0"
  then show "map snd (rank_sentences py keep words [s0, s1, s2]) =
          [s \<leftarrow> [s0, s2, s1]. keep (keyword_score py words s)]"
    by (simp add: rank_three)
next
  assume "keyword_score py words s0 = keyword_score py words s2 \<and>
          keyword_score py words s1 < keyword_score py words s0 \<and>
          keep (keyword_score py words s0) \<and> keep (keyword_score py words s1)"
  then show "map snd (rank_sentences py keep words [s0, s1, s2]) = [s0, s2, s1]"
    using rank_three [of py words s0 s2 s1 keep] by auto
next
  show "[(s, score). (score, s) \<leftarrow> rank_sentences py (\<lambda>score. score \<ge> 1) [ascii ''cat'', ascii ''dog''] cat_corpus] =
       [(ascii ''The cat and the dog played.'', 2), (ascii ''The cat sat on the mat.'', 1),
        (ascii ''Dogs are loyal animals.'', 1)]"
    by (simp add: rank_cat_corpus)
qed

theorem rank_sentences_descending_stable_witness:
  "keyword_score latin1 [ascii ''cat'', ascii ''dog''] (ascii ''The cat and the dog played.'') =
     keyword_score latin1 [ascii ''cat'', ascii ''dog''] (ascii ''A dog and a cat.'')
   \<and> keyword_score latin1 [ascii ''cat'', ascii ''dog''] (ascii ''The cat sat.'') <
     keyword_score latin1 [ascii ''cat'', ascii ''dog''] (ascii ''The cat and the dog played.'')
   \<and> map snd (rank_sentences latin1 (\<lambda>score. score > 0) [ascii ''cat'', ascii ''dog'']
        [ascii ''The cat and the dog played.'', ascii ''The cat sat.'', ascii ''A dog and a cat.'']) =
      [ascii ''The cat and the dog played.'', ascii ''A dog and a cat.'', ascii ''The cat sat.'']"
proof -
  have a: "keyword_score latin1 [ascii ''cat'', ascii ''dog''] (ascii ''The cat and the dog played.'') = 2"
    by code_simp
  have b: "keyword_score latin1 [ascii ''cat'', ascii ''dog''] (ascii ''The cat sat.'') = 1"
    by code_simp
  have c: "keyword_score latin1 [ascii ''cat'', ascii ''dog''] (ascii ''A dog and a cat.'') = 2"
    by code_simp
  have h: "keyword_score latin1 [ascii ''cat'', ascii ''dog''] (ascii ''The cat and the dog played.'') =
             keyword_score latin1 [ascii ''cat'', ascii ''dog''] (ascii ''A dog and a cat.'')
           \<and> keyword_score latin1 [ascii ''cat'', ascii ''dog''] (ascii ''The cat sat.'') <
             keyword_score latin1 [ascii ''cat'', ascii ''dog''] (ascii ''The cat and the dog played.'')"
    by (simp only: a b c) simp
  from rank_sentences_descending_stable
         [of latin1 "\<lambda>score. score > 0" "[ascii ''cat'', ascii ''dog'']" "[]"
             "ascii ''The cat and the dog played.''" "ascii ''A dog and a cat.''" "ascii ''The cat sat.''"]
  have "map snd (rank_sentences latin1 (\<lambda>score. score > 0) [ascii ''cat'', ascii ''dog'']
        [ascii ''The cat and the dog played.'', ascii ''The cat sat.'', ascii ''A dog and a cat.'']) =
      [s \<leftarrow> [ascii ''The cat and the dog played.'', ascii ''A dog and a cat.'', ascii ''The cat sat.''].
         0 < keyword_score latin1 [ascii ''cat'', ascii ''dog''] s]"
    using h by blast
  then show ?thesis
    using h by (simp only: filter.simps a b c) simp
qed

section \<open>Scores and the empty corpus\<close>

lemma keyword_score_Cons:
  "keyword_score py (k # words) sentence =
     (if contains (lower py sentence) (lower py k) then 1 else 0) + keyword_score py words sentence"
  by (simp add: keyword_score_def)

lemma keyword_score_append:
  "keyword_score py (xs @ ys) sentence = keyword_score py xs sentence + keyword_score py ys sentence"
  by (induction xs) (simp_all add: keyword_score_Cons, simp add: keyword_score_def)

lemma keyword_score_nonneg: "0 \<le> keyword_score py words sentence"
  by (induction words) (simp_all add: keyword_score_Cons, simp add: keyword_score_def)

lemma vocabulary_score_Cons:
  "vocabulary_score py (k # kws) sentence =
     (if contains (lower py sentence) k then 1 else 0) + vocabulary_score py kws sentence"
  by (simp add: vocabulary_score_def)

lemma vocabulary_score_append:
  "vocabulary_score py (xs @ ys) sentence =
     vocabulary_score py xs sentence + vocabulary_score py ys sentence"
  by (induction xs) (simp_all add: vocabulary_score_Cons, simp add: vocabulary_score_def)

lemma vocabulary_score_nonneg: "0 \<le> vocabulary_score py kws sentence"
  by (induction kws) (simp_all add: vocabulary_score_Cons, simp add: vocabulary_score_def)

text \<open>
  C9. Adding a keyword never decreases the score of a sentence, whether the keyword is
  put in front of the kws, after them, or inserted as into a set.
\<close>

theorem score_monotone:
  "keyword_score py kws sentence \<le> keyword_score py (k # kws) sentence
   \<and> keyword_score py kws sentence \<le> keyword_score py (kws @ [k]) sentence
   \<and> keyword_score py kws sentence \<le> keyword_score py (List.insert k kws) sentence
   \<and> vocabulary_score py kws sentence \<le> vocabulary_score py (k # kws) sentence
   \<and> vocabulary_score py kws sentence \<le> vocabulary_score py (kws @ [k]) sentence
   \<and> vocabulary_score py kws sentence \<le> vocabulary_score py (List.insert k kws) sentence"
proof -
  have "keyword_score py kws sentence \<le> keyword_score py (k # kws) sentence"
    by (simp add: keyword_score_Cons)
  moreover have "keyword_score py kws sentence \<le> keyword_score py (kws @ [k]) sentence"
    using keyword_score_nonneg [of py "[k]" sentence] by (simp add: keyword_score_append)
  moreover have "vocabulary_score py kws sentence \<le> vocabulary_score py (k # kws) sentence"
    by (simp add: vocabulary_score_Cons)
  moreover have "vocabulary_score py kws sentence \<le> vocabulary_score py (kws @ [k]) sentence"
    using vocabulary_score_nonneg [of py "[k]" sentence] by (simp add: vocabulary_score_append)
  ultimately show ?thesis
    by (simp add: List.insert_def)
qed

theorem score_monotone_witness:
  "keyword_score latin1 [ascii ''cat''] (ascii ''The cat and the dog played.'') = 1
   \<and> keyword_score latin1 (ascii ''dog'' # [ascii ''cat'']) (ascii ''The cat and the dog played.'') = 2
   \<and> keyword_score latin1 [ascii ''cat''] (ascii ''The cat and the dog played.'')
       \<le> keyword_score latin1 (ascii ''dog'' # [ascii ''cat'']) (ascii ''The cat and the dog played.'')"
proof -
  have "keyword_score latin1 [ascii ''cat''] (ascii ''The cat and the dog played.'') = 1" by code_simp
  moreover have "keyword_score latin1 (ascii ''dog'' # [ascii ''cat'']) (ascii ''The cat and the dog played.'') = 2"
    by code_simp
  ultimately show ?thesis
    using score_monotone [of latin1 "[ascii ''cat'']" "ascii ''The cat and the dog played.''" "ascii ''dog''"]
    by blast
qed

text \<open>
  C6. With no document processed the corpus is empty, and the summary of every kind is
  the str "No documents processed yet.".
\<close>

theorem generate_summary_unprocessed:
  "generate_summary py nl (self\<lparr>documents := []\<rparr>) summary_type = ascii ''No documents processed yet.''
   \<and> generate_summary py nl unprocessed summary_type = ascii ''No documents processed yet.''"
  by (simp add: generate_summary_def unprocessed_def)

theorem generate_summary_unprocessed_witness:
  "generate_summary latin1 simple_nltk unprocessed (ascii ''key_points'') = ascii ''No documents processed yet.''
   \<and> generate_summary latin1 simple_nltk unprocessed (ascii ''methodology'') = ascii ''No documents processed yet.''
   \<and> generate_summary latin1 simple_nltk unprocessed (ascii ''findings'') = ascii ''No documents processed yet.''
   \<and> generate_summary latin1 simple_nltk unprocessed (ascii ''comprehensive'') = ascii ''No documents processed yet.''"
  using generate_summary_unprocessed [of latin1 simple_nltk]
  by blast

section \<open>The layout of the summaries\<close>

lemma numbered_fold:
  "fold (\<lambda>(i, (_, sentence)) acc. acc @ str_nat i @ ascii ''. '' @ clean sentence @ newline @ newline)
        (List.enumerate n ps) acc =
   acc @ concat [str_nat i @ ascii ''. '' @ s @ newline @ newline.
                 (i, s) \<leftarrow> List.enumerate n (map (clean \<circ> snd) ps)]"
  by (induction ps arbitrary: n acc) (simp_all add: case_prod_beta)

lemma bulleted_fold_enumerate:
  "fold (\<lambda>(i, sentence) acc. acc @ bullet @ ascii '' '' @ clean sentence @ newline @ newline)
        (List.enumerate n xs) acc =
   acc @ bulleted_list (map clean xs)"
  by (induction xs arbitrary: n acc) (simp_all add: bulleted_list_def)

lemma bulleted_fold:
  "fold (\<lambda>sentence acc. acc @ bullet @ ascii '' '' @ clean sentence @ newline @ newline) xs acc =
   acc @ bulleted_list (map clean xs)"
  by (induction xs arbitrary: acc) (simp_all add: bulleted_list_def)

lemma extract_key_points_eq:
  "extract_key_points py nl self =
     ascii ''**KEY POINTS:**'' @ newline @ newline @ numbered_list (key_point_sentences py nl self)"
  by (simp only: extract_key_points_def Let_def numbered_fold numbered_list_def
        key_point_sentences_def append_assoc)

lemma select_fold:
  "fold (\<lambda>sentence acc. if 1 \<le> vocabulary_score py vocabulary sentence then acc @ [sentence] else acc)
        docs [] =
   [s \<leftarrow> docs. vocabulary_score py vocabulary s \<ge> 1]"
  using fold_select [of "\<lambda>s. 1 \<le> vocabulary_score py vocabulary s" "\<lambda>s. s" docs "[]"]
  by simp

lemma vocabulary_sentences_Nil:
  "([s \<leftarrow> docs. vocabulary_score py vocabulary s \<ge> 1] = []) =
     (vocabulary_sentences py vocabulary docs = [])"
  by (simp add: vocabulary_sentences_def)

lemma extract_methodology_eq:
  "extract_methodology py self =
     (if vocabulary_sentences py method_keywords (documents self) = []
      then ascii ''No clear methodology sections found in the documents.''
      else ascii ''**METHODOLOGY:**'' @ newline @ newline
             @ bulleted_list (map clean (vocabulary_sentences py method_keywords (documents self))))"
  unfolding extract_methodology_def Let_def select_fold bulleted_fold_enumerate
  by (simp only: vocabulary_sentences_Nil append_assoc vocabulary_sentences_def [symmetric])

lemma extract_findings_eq:
  "extract_findings py self =
     (if vocabulary_sentences py finding_keywords (documents self) = []
      then ascii ''No clear findings sections found in the documents.''
      else ascii ''**FINDINGS & RESULTS:**'' @ newline @ newline
             @ bulleted_list (map clean (vocabulary_sentences py finding_keywords (documents self))))"
  unfolding extract_findings_def Let_def select_fold bulleted_fold_enumerate
  by (simp only: vocabulary_sentences_Nil append_assoc vocabulary_sentences_def [symmetric])

lemma extract_comprehensive_eq:
  assumes "documents self \<noteq> []"
  shows "extract_comprehensive py nl self =
     statistics_header (length (documents self)) (length (word_tokenize nl (processed_text self)))
       @ ascii ''**Overview:**'' @ newline
       @ bulleted_list (map clean (overview_sentences (documents self)))
       @ extract_key_points py nl self"
proof -
  have pos: "length (documents self) > 0"
    using assms by simp
  have imp: "take 3 (if length (documents self) > 4
                     then [] @ take 2 (documents self) @ last_n 2 (documents self)
                     else [] @ take 2 (documents self))
             = overview_sentences (documents self)"
    by (simp add: overview_sentences_def)
  show ?thesis
    unfolding extract_comprehensive_def Let_def
    by (simp only: pos if_True imp bulleted_fold statistics_header_def append_assoc)
qed

lemma overview_sentences_long:
  assumes "length docs > 4"
  shows "overview_sentences docs = [docs ! 0, docs ! 1, docs ! (length docs - 2)]"
proof -
  obtain a b rest where d: "docs = a # b # rest"
    using assms by (cases docs; cases "tl docs") auto
  have t: "take 2 docs = [docs ! 0, docs ! 1]"
    by (simp add: d)
  have "drop (length docs - 2) docs = docs ! (length docs - 2) # drop (Suc (length docs - 2)) docs"
    using assms by (simp add: Cons_nth_drop_Suc)
  then show ?thesis
    using assms by (simp add: overview_sentences_def last_n_def t)
qed

lemma overview_sentences_short:
  "length docs \<le> 4 \<Longrightarrow> overview_sentences docs = take 2 docs"
  by (simp add: overview_sentences_def)


text \<open>
  C10. On a non-empty corpus the methodology and the findings summaries list the first 7
  sentences, in corpus order, that score at least 1 against the fixed vocabulary; the
  sentences are not sorted by score. When no sentence scores, the summary is the fixed
  message instead.
\<close>

theorem methodology_findings_corpus_order:
  assumes "documents self \<noteq> []"
  shows "generate_summary py nl self (ascii ''methodology'') =
           (let selected = take 7 [s \<leftarrow> documents self. vocabulary_score py method_keywords s \<ge> 1]
            in if selected = [] then ascii ''No clear methodology sections found in the documents.''
               else ascii ''**METHODOLOGY:**'' @ newline @ newline @ bulleted_list (map clean selected))
         \<and> generate_summary py nl self (ascii ''findings'') =
           (let selected = take 7 [s \<leftarrow> documents self. vocabulary_score py finding_keywords s \<ge> 1]
            in if selected = [] then ascii ''No clear findings sections found in the documents.''
               else ascii ''**FINDINGS & RESULTS:**'' @ newline @ newline @ bulleted_list (map clean selected))
         \<and> subseq (take 7 [s \<leftarrow> documents self. vocabulary_score py method_keywords s \<ge> 1])
              (documents self)
         \<and> subseq (take 7 [s \<leftarrow> documents self. vocabulary_score py finding_keywords s \<ge> 1])
              (documents self)"
proof -
  have sub: "subseq (take 7 (filter P (documents self))) (documents self)" for P
    by (metis append_take_drop_id subseq_filter_left subseq_order.order_trans
          subseq_order.order_refl list_emb_prefix)
  have "generate_summary py nl self (ascii ''methodology'') = extract_methodology py self"
    using assms by (simp add: generate_summary_def)
  moreover have "generate_summary py nl self (ascii ''findings'') = extract_findings py self"
    using assms by (simp add: generate_summary_def)
  ultimately show ?thesis
    using sub
    by (simp only: extract_methodology_eq extract_findings_eq vocabulary_sentences_def Let_def)
qed


theorem methodology_findings_corpus_order_witness:
  "documents lab_notes \<noteq> []
   \<and> generate_summary latin1 simple_nltk lab_notes (ascii ''methodology'') =
       ascii ''**METHODOLOGY:**'' @ newline @ newline
         @ bulleted_list [ascii ''we found data'', ascii ''the method showed results'']
   \<and> generate_summary latin1 simple_nltk lab_notes (ascii ''findings'') =
       ascii ''**FINDINGS & RESULTS:**'' @ newline @ newline
         @ bulleted_list [ascii ''we found data'', ascii ''the method showed results'']"
proof -
  have h: "documents lab_notes \<noteq> []"
    by (simp add: lab_notes_def)
  have m: "take 7 [s \<leftarrow> documents lab_notes. vocabulary_score latin1 method_keywords s \<ge> 1] =
             [ascii ''we found data'', ascii ''the method showed results'']"
    by code_simp
  have f: "take 7 [s \<leftarrow> documents lab_notes. vocabulary_score latin1 finding_keywords s \<ge> 1] =
             [ascii ''we found data'', ascii ''the method showed results'']"
    by code_simp
  have c: "map clean [ascii ''we found data'', ascii ''the method showed results''] =
             [ascii ''we found data'', ascii ''the method showed results'']"
    by code_simp
  note t = methodology_findings_corpus_order [OF h, of latin1 simple_nltk]
  have a: "generate_summary latin1 simple_nltk lab_notes (ascii ''methodology'') =
       ascii ''**METHODOLOGY:**'' @ newline @ newline
         @ bulleted_list [ascii ''we found data'', ascii ''the method showed results'']"
    using t [THEN conjunct1] by (simp only: m Let_def c list.distinct if_False)
  have b: "generate_summary latin1 simple_nltk lab_notes (ascii ''findings'') =
       ascii ''**FINDINGS & RESULTS:**'' @ newline @ newline
         @ bulleted_list [ascii ''we found data'', ascii ''the method showed results'']"
    using t [THEN conjunct2, THEN conjunct1] by (simp only: f Let_def c list.distinct if_False)
  show ?thesis
    using h a b by (intro conjI)
qed

text \<open>
  C4. On a non-empty corpus the comprehensive summary is the "COMPREHENSIVE SUMMARY"
  header with the number of sentences and of word tokens, then the overview, which is
  the first 2 sentences plus, exactly when the corpus has more than 4 sentences, the
  last 2, cut to the first 3 of that list, and then the whole key-points summary.
\<close>

theorem comprehensive_summary_layout:
  assumes "documents self \<noteq> []"
  shows "generate_summary py nl self (ascii ''comprehensive'') =
           ascii ''**COMPREHENSIVE SUMMARY**'' @ newline @ newline
             @ ascii ''*Document Statistics: '' @ str_nat (length (documents self)) @ ascii '' sentences, ''
             @ str_nat (length (word_tokenize nl (processed_text self))) @ ascii '' words*''
             @ newline @ newline
             @ ascii ''**Overview:**'' @ newline
             @ bulleted_list (map clean (overview_sentences (documents self)))
             @ generate_summary py nl self (ascii ''key_points'')
         \<and> overview_sentences (documents self) =
             (if length (documents self) > 4
              then [documents self ! 0, documents self ! 1,
                    documents self ! (length (documents self) - 2)]
              else take 2 (documents self))"
proof -
  have "generate_summary py nl self (ascii ''comprehensive'') = extract_comprehensive py nl self"
    using assms by (simp add: generate_summary_def)
  moreover have "generate_summary py nl self (ascii ''key_points'') = extract_key_points py nl self"
    using assms by (simp add: generate_summary_def)
  moreover have "overview_sentences (documents self) =
             (if length (documents self) > 4
              then [documents self ! 0, documents self ! 1,
                    documents self ! (length (documents self) - 2)]
              else take 2 (documents self))"
    by (simp add: overview_sentences_long overview_sentences_short)
  ultimately show ?thesis
    by (simp only: extract_comprehensive_eq [OF assms] statistics_header_def append_assoc)
qed

theorem comprehensive_summary_layout_witness:
  "documents lab_notes \<noteq> []
   \<and> generate_summary latin1 simple_nltk lab_notes (ascii ''comprehensive'') =
       ascii ''**COMPREHENSIVE SUMMARY**'' @ newline @ newline
         @ ascii ''*Document Statistics: 5 sentences, 13 words*'' @ newline @ newline
         @ ascii ''**Overview:**'' @ newline
         @ bulleted_list [ascii ''we found data'', ascii ''cats purr'', ascii ''dogs bark'']
         @ generate_summary latin1 simple_nltk lab_notes (ascii ''key_points'')"
proof -
  have h: "documents lab_notes \<noteq> []"
    by (simp add: lab_notes_def)
  have n: "str_nat (length (documents lab_notes)) = ascii ''5''"
    by code_simp
  have w: "str_nat (length (word_tokenize simple_nltk (processed_text lab_notes))) = ascii ''13''"
    by code_simp
  have v: "map clean (overview_sentences (documents lab_notes)) =
             [ascii ''we found data'', ascii ''cats purr'', ascii ''dogs bark'']"
    by code_simp
  from comprehensive_summary_layout [OF h, of latin1 simple_nltk] show ?thesis
    using h by (simp add: n w v ascii_def)
qed

text \<open>
  C1 as stated fails: in the comprehensive summary the overview sentences are bulleted
  and the key-points block is numbered, not the other way round.
\<close>

theorem comprehensive_format_counterexample:
  "generate_summary latin1 simple_nltk pets (ascii ''comprehensive'') =
     ascii ''**COMPREHENSIVE SUMMARY**'' @ newline @ newline
       @ ascii ''*Document Statistics: 2 sentences, 4 words*'' @ newline @ newline
       @ ascii ''**Overview:**'' @ newline
       @ bulleted_list [ascii ''dogs bark'', ascii ''cats purr'']
       @ ascii ''**KEY POINTS:**'' @ newline @ newline
       @ numbered_list [ascii ''dogs bark'', ascii ''cats purr'']
   \<and> generate_summary latin1 simple_nltk pets (ascii ''comprehensive'') \<noteq>
     ascii ''**COMPREHENSIVE SUMMARY**'' @ newline @ newline
       @ ascii ''*Document Statistics: 2 sentences, 4 words*'' @ newline @ newline
       @ ascii ''**Overview:**'' @ newline
       @ numbered_list [ascii ''dogs bark'', ascii ''cats purr'']
       @ ascii ''**KEY POINTS:**'' @ newline @ newline
       @ bulleted_list [ascii ''dogs bark'', ascii ''cats purr'']"
  by code_simp

text \<open>
  C1, amended. On a non-empty corpus the sentences of a key-points summary, also when it
  is the key-points block of a comprehensive summary, are a numbered list; the sentences
  of the methodology and findings summaries and the overview sentences of a comprehensive
  summary are a bulleted list.
\<close>

theorem summary_list_formats:
  assumes "documents self \<noteq> []"
  shows "generate_summary py nl self (ascii ''key_points'') =
           ascii ''**KEY POINTS:**'' @ newline @ newline @ numbered_list (key_point_sentences py nl self)
         \<and> generate_summary py nl self (ascii ''methodology'') =
           (if vocabulary_sentences py method_keywords (documents self) = []
            then ascii ''No clear methodology sections found in the documents.''
            else ascii ''**METHODOLOGY:**'' @ newline @ newline
                   @ bulleted_list
                       (map clean (vocabulary_sentences py method_keywords (documents self))))
         \<and> generate_summary py nl self (ascii ''findings'') =
           (if vocabulary_sentences py finding_keywords (documents self) = []
            then ascii ''No clear findings sections found in the documents.''
            else ascii ''**FINDINGS & RESULTS:**'' @ newline @ newline
                   @ bulleted_list
                       (map clean (vocabulary_sentences py finding_keywords (documents self))))
         \<and> generate_summary py nl self (ascii ''comprehensive'') =
           statistics_header (length (documents self))
               (length (word_tokenize nl (processed_text self)))
             @ ascii ''**Overview:**'' @ newline
             @ bulleted_list (map clean (overview_sentences (documents self)))
             @ ascii ''**KEY POINTS:**'' @ newline @ newline
             @ numbered_list (key_point_sentences py nl self)"
proof -
  have "generate_summary py nl self (ascii ''key_points'') = extract_key_points py nl self"
    using assms by (simp add: generate_summary_def)
  moreover have "generate_summary py nl self (ascii ''methodology'') = extract_methodology py self"
    using assms by (simp add: generate_summary_def)
  moreover have "generate_summary py nl self (ascii ''findings'') = extract_findings py self"
    using assms by (simp add: generate_summary_def)
  moreover have "generate_summary py nl self (ascii ''comprehensive'') = extract_comprehensive py nl self"
    using assms by (simp add: generate_summary_def)
  ultimately show ?thesis
    by (simp only: extract_comprehensive_eq [OF assms] extract_key_points_eq
          extract_methodology_eq extract_findings_eq append_assoc simp_thms)
qed

theorem summary_list_formats_witness:
  "documents lab_notes \<noteq> []
   \<and> generate_summary latin1 simple_nltk lab_notes (ascii ''key_points'') =
       ascii ''**KEY POINTS:**'' @ newline @ newline
         @ ascii ''1. the method showed results'' @ newline @ newline
         @ ascii ''2. we found data'' @ newline @ newline
         @ ascii ''3. cats purr'' @ newline @ newline
         @ ascii ''4. dogs bark'' @ newline @ newline
   \<and> generate_summary latin1 simple_nltk lab_notes (ascii ''comprehensive'') =
       ascii ''**COMPREHENSIVE SUMMARY**'' @ newline @ newline
         @ ascii ''*Document Statistics: 5 sentences, 13 words*'' @ newline @ newline
         @ ascii ''**Overview:**'' @ newline
         @ bullet @ ascii '' we found data'' @ newline @ newline
         @ bullet @ ascii '' cats purr'' @ newline @ newline
         @ bullet @ ascii '' dogs bark'' @ newline @ newline
         @ ascii ''**KEY POINTS:**'' @ newline @ newline
         @ ascii ''1. the method showed results'' @ newline @ newline
         @ ascii ''2. we found data'' @ newline @ newline
         @ ascii ''3. cats purr'' @ newline @ newline
         @ ascii ''4. dogs bark'' @ newline @ newline"
proof -
  have h: "documents lab_notes \<noteq> []"
    by (simp add: lab_notes_def)
  note t = summary_list_formats [OF h, of latin1 simple_nltk]
  have k: "numbered_list (key_point_sentences latin1 simple_nltk lab_notes) =
         ascii ''1. the method showed results'' @ newline @ newline
         @ ascii ''2. we found data'' @ newline @ newline
         @ ascii ''3. cats purr'' @ newline @ newline
         @ ascii ''4. dogs bark'' @ newline @ newline"
    by code_simp
  have s: "statistics_header (length (documents lab_notes))
               (length (word_tokenize simple_nltk (processed_text lab_notes))) =
       ascii ''**COMPREHENSIVE SUMMARY**'' @ newline @ newline
         @ ascii ''*Document Statistics: 5 sentences, 13 words*'' @ newline @ newline"
    by code_simp
  have v: "bulleted_list (map clean (overview_sentences (documents lab_notes))) =
         bullet @ ascii '' we found data'' @ newline @ newline
         @ bullet @ ascii '' cats purr'' @ newline @ newline
         @ bullet @ ascii '' dogs bark'' @ newline @ newline"
    by code_simp
  have a: "generate_summary latin1 simple_nltk lab_notes (ascii ''key_points'') =
       ascii ''**KEY POINTS:**'' @ newline @ newline
         @ ascii ''1. the method showed results'' @ newline @ newline
         @ ascii ''2. we found data'' @ newline @ newline
         @ ascii ''3. cats purr'' @ newline @ newline
         @ ascii ''4. dogs bark'' @ newline @ newline"
    using t [THEN conjunct1] by (simp only: k)
  have b: "generate_summary latin1 simple_nltk lab_notes (ascii ''comprehensive'') =
       ascii ''**COMPREHENSIVE SUMMARY**'' @ newline @ newline
         @ ascii ''*Document Statistics: 5 sentences, 13 words*'' @ newline @ newline
         @ ascii ''**Overview:**'' @ newline
         @ bullet @ ascii '' we found data'' @ newline @ newline
         @ bullet @ ascii '' cats purr'' @ newline @ newline
         @ bullet @ ascii '' dogs bark'' @ newline @ newline
         @ ascii ''**KEY POINTS:**'' @ newline @ newline
         @ ascii ''1. the method showed results'' @ newline @ newline
         @ ascii ''2. we found data'' @ newline @ newline
         @ ascii ''3. cats purr'' @ newline @ newline
         @ ascii ''4. dogs bark'' @ newline @ newline"
    using t [THEN conjunct2, THEN conjunct2, THEN conjunct2]
    by (simp only: k s v append_assoc)
  show ?thesis
    using h a b by (intro conjI)
qed

section \<open>Answering questions\<close>

lemma positive_score: "(\<lambda>score :: int. score > 0) = (\<lambda>score. score \<ge> 1)"
  by auto

lemma ask_question_eq:
  assumes "documents self \<noteq> []" and "question_words py nl self question \<noteq> []"
  shows "ask_question py nl self question =
     (if rank_sentences py (\<lambda>score. score \<ge> 1) (question_words py nl self question) (documents self) = []
      then ascii ''No relevant information found for your question.''
      else ascii ''**Answer to: '' @ question @ ascii ''**'' @ newline @ newline
             @ ascii ''Based on the document content:'' @ newline @ newline
             @ numbered_list
                 (map (clean \<circ> snd)
                    (take 5 (rank_sentences py (\<lambda>score. score \<ge> 1)
                               (question_words py nl self question) (documents self)))))"
  unfolding ask_question_def Let_def
  by (simp only: assms if_False positive_score numbered_fold numbered_list_def append_assoc)

lemma rank_sentences_Nil_iff:
  "rank_sentences py keep words docs = [] \<longleftrightarrow> (\<forall>s \<in> set docs. \<not> keep (keyword_score py words s))"
proof -
  have "[(keyword_score py words s, s). s \<leftarrow> docs, keep (keyword_score py words s)] = [] \<longleftrightarrow>
          (\<forall>s \<in> set docs. \<not> keep (keyword_score py words s))"
    by (induction docs) simp_all
  then show ?thesis
    by (simp only: rank_sentences_eq sorted_reverse_Nil_iff)
qed


lemma keyword_score_length:
  "keyword_score py words sentence =
     int (length [w \<leftarrow> words. contains (lower py sentence) (lower py w)])"
  by (induction words) (simp_all add: keyword_score_Cons, simp add: keyword_score_def)

text \<open>
  C7 as stated fails on an empty corpus, which a successful call on a blank file leaves:
  the question has no keyword, yet the answer is the message about missing documents, not
  the prompt for a more specific question.
\<close>

theorem ask_question_prompt_counterexample:
  "process_documents simple_nltk unprocessed [Txt (Some (ascii ''  ''))] = (True, unprocessed)
   \<and> question_words latin1 simple_nltk unprocessed (ascii ''what is the'') = []
   \<and> ask_question latin1 simple_nltk unprocessed (ascii ''what is the'') = ascii ''No documents processed yet.''
   \<and> ask_question latin1 simple_nltk unprocessed (ascii ''what is the'') \<noteq>
       ascii ''Please ask a more specific question with keywords.''"
  by code_simp

text \<open>
  C7, amended. On a non-empty corpus, the keywords of a question are all the alphabetic
  tokens of the lower-cased question that are not stop-words, whatever their length, and
  the answer is the prompt for a more specific question exactly when there is no keyword.
\<close>

theorem ask_question_prompt:
  assumes "documents self \<noteq> []"
  shows "question_words py nl self question =
           [w \<leftarrow> word_tokenize nl (lower py question). isalpha py w \<and> w \<notin> stop_words self]
         \<and> (ask_question py nl self question = ascii ''Please ask a more specific question with keywords.''
              \<longleftrightarrow> question_words py nl self question = [])"
proof -
  have "ask_question py nl self question \<noteq> ascii ''Please ask a more specific question with keywords.''"
    if "question_words py nl self question \<noteq> []"
    by (simp add: ask_question_eq [OF assms that] ascii_def)
  moreover have "ask_question py nl self question =
                   ascii ''Please ask a more specific question with keywords.''"
    if "question_words py nl self question = []"
    using assms that by (simp add: ask_question_def)
  ultimately show ?thesis
    by (auto simp add: question_words_def)
qed

theorem ask_question_prompt_witness:
  "documents pets \<noteq> []
   \<and> question_words latin1 simple_nltk pets (ascii ''what is the'') = []
   \<and> ask_question latin1 simple_nltk pets (ascii ''what is the'') =
       ascii ''Please ask a more specific question with keywords.''
   \<and> question_words latin1 simple_nltk pets (ascii ''What is the CAT'') = [ascii ''cat'']
   \<and> ask_question latin1 simple_nltk pets (ascii ''What is the CAT'') \<noteq>
       ascii ''Please ask a more specific question with keywords.''
   \<and> documents cafe \<noteq> []
   \<and> question_words latin1 simple_nltk cafe (ascii ''CAF'' @ [201]) = [ascii ''caf'' @ [233]]
   \<and> ask_question latin1 simple_nltk cafe (ascii ''CAF'' @ [201]) \<noteq>
       ascii ''Please ask a more specific question with keywords.''"
proof -
  have h: "documents pets \<noteq> []"
    by (simp add: pets_def)
  have e: "question_words latin1 simple_nltk pets (ascii ''what is the'') = []"
    by code_simp
  have k: "question_words latin1 simple_nltk pets (ascii ''What is the CAT'') = [ascii ''cat'']"
    by code_simp
  have a: "ask_question latin1 simple_nltk pets (ascii ''what is the'') =
             ascii ''Please ask a more specific question with keywords.''"
    using ask_question_prompt [OF h, of latin1 simple_nltk "ascii ''what is the''"] e by blast
  have b: "ask_question latin1 simple_nltk pets (ascii ''What is the CAT'') \<noteq>
             ascii ''Please ask a more specific question with keywords.''"
    using ask_question_prompt [OF h, of latin1 simple_nltk "ascii ''What is the CAT''"] k by simp
  have h': "documents cafe \<noteq> []"
    by (simp add: cafe_def)
  have k': "question_words latin1 simple_nltk cafe (ascii ''CAF'' @ [201]) =
              [ascii ''caf'' @ [233]]"
    by code_simp
  have b': "ask_question latin1 simple_nltk cafe (ascii ''CAF'' @ [201]) \<noteq>
             ascii ''Please ask a more specific question with keywords.''"
    using ask_question_prompt [OF h', of latin1 simple_nltk "ascii ''CAF'' @ [201]"] k' by simp
  show ?thesis
    using h e a k b h' k' b' by (intro conjI)
qed

text \<open>
  C3 as stated fails. A keyword that the question repeats is counted each time, so the
  ranking is not the one against the set of keywords; and on the empty corpus that a
  successful call on a blank file leaves, the answer is the message about missing
  documents, not the one about missing information.
\<close>

theorem ask_question_keyword_set_counterexample:
  "question_words latin1 simple_nltk pets (ascii ''cat cat dog'') = [ascii ''cat'', ascii ''cat'', ascii ''dog'']
   \<and> ask_question latin1 simple_nltk pets (ascii ''cat cat dog'') =
       ascii ''**Answer to: cat cat dog**'' @ newline @ newline
         @ ascii ''Based on the document content:'' @ newline @ newline
         @ numbered_list [ascii ''cats purr'', ascii ''dogs bark'']
   \<and> answer_by_keyword_set latin1 simple_nltk pets (ascii ''cat cat dog'') =
       ascii ''**Answer to: cat cat dog**'' @ newline @ newline
         @ ascii ''Based on the document content:'' @ newline @ newline
         @ numbered_list [ascii ''dogs bark'', ascii ''cats purr'']
   \<and> ask_question latin1 simple_nltk pets (ascii ''cat cat dog'') \<noteq>
       answer_by_keyword_set latin1 simple_nltk pets (ascii ''cat cat dog'')
   \<and> process_documents simple_nltk unprocessed [Txt (Some (ascii ''  ''))] = (True, unprocessed)
   \<and> question_words latin1 simple_nltk unprocessed (ascii ''cat'') = [ascii ''cat'']
   \<and> ask_question latin1 simple_nltk unprocessed (ascii ''cat'') = ascii ''No documents processed yet.''
   \<and> ask_question latin1 simple_nltk unprocessed (ascii ''cat'') \<noteq>
       ascii ''No relevant information found for your question.''"
  by code_simp

text \<open>
  C3, amended. On a non-empty corpus and for a question with at least one keyword, each
  sentence is scored by the number of entries of the question's keyword list that it
  contains, a repeated keyword counting each time; the sentences that score at least 1
  are ranked in descending order, equal scores in corpus order, and the top 5 are
  returned as a numbered list under a header that echoes the question as it was typed.
  When no sentence scores at least 1 the answer is "No relevant information found for
  your question.".
\<close>

theorem ask_question_answer:
  assumes "documents self \<noteq> []" and "question_words py nl self question \<noteq> []"
  shows "ask_question py nl self question =
           (let ranked = rank_sentences py (\<lambda>score. score \<ge> 1)
                           (question_words py nl self question) (documents self)
            in if ranked = [] then ascii ''No relevant information found for your question.''
               else ascii ''**Answer to: '' @ question @ ascii ''**'' @ newline @ newline
                      @ ascii ''Based on the document content:'' @ newline @ newline
                      @ numbered_list (map (clean \<circ> snd) (take 5 ranked)))
         \<and> (rank_sentences py (\<lambda>score. score \<ge> 1) (question_words py nl self question)
                (documents self) = []
              \<longleftrightarrow> (\<forall>s \<in> set (documents self).
                     keyword_score py (question_words py nl self question) s < 1))
         \<and> (\<forall>s. keyword_score py (question_words py nl self question) s =
                  int (length [w \<leftarrow> question_words py nl self question.
                                 contains (lower py s) (lower py w)]))
         \<and> sorted_wrt (\<lambda>p q. fst p \<ge> fst q)
              (rank_sentences py (\<lambda>score. score \<ge> 1) (question_words py nl self question)
                 (documents self))
         \<and> (\<forall>k. [p \<leftarrow> rank_sentences py (\<lambda>score. score \<ge> 1)
                          (question_words py nl self question) (documents self). fst p = k] =
                  [p \<leftarrow> [(keyword_score py (question_words py nl self question) s, s).
                           s \<leftarrow> documents self,
                           keyword_score py (question_words py nl self question) s \<ge> 1].
                     fst p = k])"
proof (intro conjI allI)
  show "ask_question py nl self question =
           (let ranked = rank_sentences py (\<lambda>score. score \<ge> 1)
                           (question_words py nl self question) (documents self)
            in if ranked = [] then ascii ''No relevant information found for your question.''
               else ascii ''**Answer to: '' @ question @ ascii ''**'' @ newline @ newline
                      @ ascii ''Based on the document content:'' @ newline @ newline
                      @ numbered_list (map (clean \<circ> snd) (take 5 ranked)))"
    by (simp only: ask_question_eq [OF assms] Let_def)
next
  show "rank_sentences py (\<lambda>score. score \<ge> 1) (question_words py nl self question)
                (documents self) = []
              \<longleftrightarrow> (\<forall>s \<in> set (documents self).
                     keyword_score py (question_words py nl self question) s < 1)"
    by (simp only: rank_sentences_Nil_iff not_le)
next
  fix s
  show "keyword_score py (question_words py nl self question) s =
                  int (length [w \<leftarrow> question_words py nl self question.
                                 contains (lower py s) (lower py w)])"
    by (rule keyword_score_length)
next
  show "sorted_wrt (\<lambda>p q. fst p \<ge> fst q)
              (rank_sentences py (\<lambda>score. score \<ge> 1) (question_words py nl self question)
                 (documents self))"
    by (simp only: rank_sentences_eq sorted_reverse_descending)
next
  fix k
  show "[p \<leftarrow> rank_sentences py (\<lambda>score. score \<ge> 1)
                          (question_words py nl self question) (documents self). fst p = k] =
                  [p \<leftarrow> [(keyword_score py (question_words py nl self question) s, s).
                           s \<leftarrow> documents self,
                           keyword_score py (question_words py nl self question) s \<ge> 1].
                     fst p = k]"
    by (simp only: rank_sentences_eq sorted_reverse_stable)
qed

theorem ask_question_answer_witness:
  "documents pets \<noteq> []
   \<and> question_words latin1 simple_nltk pets (ascii ''cat cat dog'') \<noteq> []
   \<and> rank_sentences latin1 (\<lambda>score. score \<ge> 1)
        (question_words latin1 simple_nltk pets (ascii ''cat cat dog''))
        (documents pets) = [(2, ascii ''cats purr''), (1, ascii ''dogs bark'')]
   \<and> ask_question latin1 simple_nltk pets (ascii ''cat cat dog'') =
       ascii ''**Answer to: '' @ ascii ''cat cat dog'' @ ascii ''**'' @ newline @ newline
         @ ascii ''Based on the document content:'' @ newline @ newline
         @ numbered_list [ascii ''cats purr'', ascii ''dogs bark'']
   \<and> documents cafe \<noteq> []
   \<and> question_words latin1 simple_nltk cafe (ascii ''caf'' @ [233] @ ascii '' dogs'') \<noteq> []
   \<and> ask_question latin1 simple_nltk cafe (ascii ''caf'' @ [233] @ ascii '' dogs'') =
       ascii ''**Answer to: '' @ (ascii ''caf'' @ [233] @ ascii '' dogs'') @ ascii ''**''
         @ newline @ newline
         @ ascii ''Based on the document content:'' @ newline @ newline
         @ numbered_list [ascii ''le caf'' @ [233] @ ascii '' ferme'', ascii ''dogs bark'']"
proof -
  have h: "documents pets \<noteq> []"
    by (simp add: pets_def)
  have q: "question_words latin1 simple_nltk pets (ascii ''cat cat dog'') \<noteq> []"
    by code_simp
  have r: "rank_sentences latin1 (\<lambda>score. score \<ge> 1)
        (question_words latin1 simple_nltk pets (ascii ''cat cat dog''))
        (documents pets) = [(2, ascii ''cats purr''), (1, ascii ''dogs bark'')]"
    by code_simp
  have c: "map (clean \<circ> snd) (take 5 [(2 :: int, ascii ''cats purr''), (1, ascii ''dogs bark'')]) =
             [ascii ''cats purr'', ascii ''dogs bark'']"
    by code_simp
  have a: "ask_question latin1 simple_nltk pets (ascii ''cat cat dog'') =
       ascii ''**Answer to: '' @ ascii ''cat cat dog'' @ ascii ''**'' @ newline @ newline
         @ ascii ''Based on the document content:'' @ newline @ newline
         @ numbered_list [ascii ''cats purr'', ascii ''dogs bark'']"
    using ask_question_answer [OF h q, THEN conjunct1]
    by (simp only: r Let_def list.distinct if_False c)
  have h': "documents cafe \<noteq> []"
    by (simp add: cafe_def)
  have q': "question_words latin1 simple_nltk cafe (ascii ''caf'' @ [233] @ ascii '' dogs'') \<noteq> []"
    by code_simp
  have r': "rank_sentences latin1 (\<lambda>score. score \<ge> 1)
        (question_words latin1 simple_nltk cafe (ascii ''caf'' @ [233] @ ascii '' dogs''))
        (documents cafe) =
          [(1, ascii ''le caf'' @ [233] @ ascii '' ferme''), (1, ascii ''dogs bark'')]"
    by code_simp
  have c': "map (clean \<circ> snd)
              (take 5 [(1 :: int, ascii ''le caf'' @ [233] @ ascii '' ferme''),
                       (1, ascii ''dogs bark'')]) =
             [ascii ''le caf'' @ [233] @ ascii '' ferme'', ascii ''dogs bark'']"
    by code_simp
  have a': "ask_question latin1 simple_nltk cafe (ascii ''caf'' @ [233] @ ascii '' dogs'') =
       ascii ''**Answer to: '' @ (ascii ''caf'' @ [233] @ ascii '' dogs'') @ ascii ''**''
         @ newline @ newline
         @ ascii ''Based on the document content:'' @ newline @ newline
         @ numbered_list [ascii ''le caf'' @ [233] @ ascii '' ferme'', ascii ''dogs bark'']"
    using ask_question_answer [OF h' q', THEN conjunct1]
    by (simp only: r' Let_def list.distinct if_False c')
  show ?thesis
    using h q r a h' q' a' by (intro conjI)
qed

section \<open>Counting tokens\<close>

lemma set_first_seen: "set (first_seen xs) = set xs"
  by (induction xs) auto

lemma distinct_first_seen: "distinct (first_seen xs)"
  by (induction xs) (auto simp: set_first_seen)

lemma first_seen_snoc:
  "first_seen (xs @ [x]) = (if x \<in> set xs then first_seen xs else first_seen xs @ [x])"
  by (induction xs) auto

lemma length_first_seen: "length (first_seen xs) = card (set xs)"
  using distinct_card [OF distinct_first_seen, of xs] by (simp add: set_first_seen)

lemma Counter_snoc: "Counter (ws @ [w]) = counter_add w (Counter ws)"
  by (simp add: Counter_def)

lemma counter_add_fresh:
  "w \<notin> set xs \<Longrightarrow> counter_add w (map (\<lambda>v. (v, g v)) xs) = map (\<lambda>v. (v, g v)) xs @ [(w, 1)]"
  by (induction xs) auto

lemma counter_add_seen:
  "w \<in> set xs \<Longrightarrow> distinct xs \<Longrightarrow>
   counter_add w (map (\<lambda>v. (v, g v)) xs) = map (\<lambda>v. (v, if v = w then g v + 1 else g v)) xs"
  by (induction xs) auto

lemma Counter_items:
  "Counter ws = map (\<lambda>w. (w, occurrences ws w)) (first_seen ws)"
proof (induction ws rule: rev_induct)
  case Nil
  show ?case by (simp add: Counter_def)
next
  case (snoc w ws)
  show ?case
  proof (cases "w \<in> set ws")
    case True
    then have "counter_add w (map (\<lambda>v. (v, occurrences ws v)) (first_seen ws)) =
                 map (\<lambda>v. (v, if v = w then occurrences ws v + 1 else occurrences ws v))
                   (first_seen ws)"
      by (simp add: counter_add_seen set_first_seen distinct_first_seen)
    with True snoc show ?thesis
      by (simp add: Counter_snoc first_seen_snoc occurrences_def)
  next
    case False
    then have "counter_add w (map (\<lambda>v. (v, occurrences ws v)) (first_seen ws)) =
                 map (\<lambda>v. (v, occurrences ws v)) (first_seen ws) @ [(w, 1)]"
      by (simp add: counter_add_fresh set_first_seen)
    with False snoc show ?thesis
      by (auto simp add: Counter_snoc first_seen_snoc occurrences_def set_first_seen)
  qed
qed

lemma insort_key_map:
  "insort_key k (f x) (map f xs) = map f (insort_key (\<lambda>y. k (f y)) x xs)"
  by (induction xs) simp_all

lemma sort_key_map:
  "sort_key k (map f xs) = map f (sort_key (\<lambda>y. k (f y)) xs)"
  by (induction xs) (simp_all add: insort_key_map)

lemma sorted_reverse_map:
  "sorted_reverse k (map f xs) = map f (sorted_reverse (\<lambda>y. k (f y)) xs)"
  by (simp add: sorted_reverse_def rev_map sort_key_map)

lemma top_terms_eq:
  "top_terms n tokens = take n (sorted_reverse (occurrences tokens) (first_seen tokens))"
proof -
  have "[word. (word, _) \<leftarrow> xs] = map fst xs" for xs :: "(str \<times> int) list"
    by (induction xs) auto
  then show ?thesis
    by (simp add: top_terms_def most_common_def Counter_items sorted_reverse_map take_map
          comp_def)
qed


text \<open>
  C5. The top-terms operation counts the tokens and returns the first \<open>n\<close> of the
  distinct tokens ordered by descending count, tokens of equal count in the order in which
  they are first encountered: the result has \<open>n\<close> tokens (all of them when there are
  fewer), no token left out occurs more often than a returned one, and among tokens of one
  count those encountered first come first.
\<close>

theorem top_terms_most_common:
  "top_terms n tokens = take n (sorted_reverse (occurrences tokens) (first_seen tokens))
   \<and> top_terms n tokens = take n (top_terms (length tokens) tokens)
   \<and> set (top_terms (length tokens) tokens) = set tokens
   \<and> distinct (top_terms n tokens)
   \<and> length (top_terms n tokens) = min n (card (set tokens))
   \<and> sorted_wrt (\<lambda>a b. occurrences tokens a \<ge> occurrences tokens b) (top_terms n tokens)
   \<and> (\<forall>w \<in> set tokens - set (top_terms n tokens). \<forall>v \<in> set (top_terms n tokens).
         occurrences tokens w \<le> occurrences tokens v)
   \<and> (\<forall>c. [w \<leftarrow> top_terms (length tokens) tokens. occurrences tokens w = c] =
            [w \<leftarrow> first_seen tokens. occurrences tokens w = c])"
proof -
  let ?full = "sorted_reverse (occurrences tokens) (first_seen tokens)"
  have len: "length ?full = card (set tokens)"
    by (simp add: length_sorted_reverse length_first_seen)
  have "card (set tokens) \<le> length tokens"
    by (rule card_length)
  then have full: "top_terms (length tokens) tokens = ?full"
    using len by (simp add: top_terms_eq)
  have sorted: "sorted_wrt (\<lambda>a b. occurrences tokens a \<ge> occurrences tokens b) ?full"
    by (rule sorted_reverse_descending)
  have dist: "distinct ?full"
    by (simp add: distinct_sorted_reverse distinct_first_seen)
  have set_full: "set ?full = set tokens"
    by (simp add: set_sorted_reverse set_first_seen)
  have split: "?full = take n ?full @ drop n ?full"
    by simp
  have "sorted_wrt (\<lambda>a b. occurrences tokens a \<ge> occurrences tokens b)
          (take n ?full @ drop n ?full)"
    using sorted by simp
  then have below: "\<forall>v \<in> set (take n ?full). \<forall>w \<in> set (drop n ?full).
                      occurrences tokens w \<le> occurrences tokens v"
    and sorted_take: "sorted_wrt (\<lambda>a b. occurrences tokens a \<ge> occurrences tokens b)
                        (take n ?full)"
    unfolding sorted_wrt_append by blast+
  have rest: "set tokens - set (take n ?full) \<subseteq> set (drop n ?full)"
  proof -
    have "set tokens = set (take n ?full) \<union> set (drop n ?full)"
      using set_full by (metis append_take_drop_id set_append)
    then show ?thesis by blast
  qed
  have "top_terms n tokens = take n ?full"
    by (rule top_terms_eq)
  moreover have "top_terms n tokens = take n (top_terms (length tokens) tokens)"
    by (subst full) (rule top_terms_eq)
  moreover have "set (top_terms (length tokens) tokens) = set tokens"
    by (simp only: full set_full)
  moreover have "distinct (top_terms n tokens)"
    using dist by (simp add: top_terms_eq)
  moreover have "length (top_terms n tokens) = min n (card (set tokens))"
    using len by (simp add: top_terms_eq min.commute)
  moreover have "sorted_wrt (\<lambda>a b. occurrences tokens a \<ge> occurrences tokens b)
                   (top_terms n tokens)"
    using sorted_take by (simp only: top_terms_eq)
  moreover have "\<forall>w \<in> set tokens - set (top_terms n tokens). \<forall>v \<in> set (top_terms n tokens).
         occurrences tokens w \<le> occurrences tokens v"
    using below rest unfolding top_terms_eq by blast
  moreover have "\<forall>c. [w \<leftarrow> top_terms (length tokens) tokens. occurrences tokens w = c] =
            [w \<leftarrow> first_seen tokens. occurrences tokens w = c]"
    by (simp only: full sorted_reverse_stable) simp
  ultimately show ?thesis
    by (intro conjI)
qed

theorem top_terms_most_common_witness:
  "top_terms 2 [ascii ''b'', ascii ''a'', ascii ''c'', ascii ''a'', ascii ''b'', ascii ''d''] = [ascii ''b'', ascii ''a'']
   \<and> top_terms 3 [ascii ''b'', ascii ''a'', ascii ''c'', ascii ''a'', ascii ''b'', ascii ''d''] = [ascii ''b'', ascii ''a'', ascii ''c'']
   \<and> ascii ''c'' \<in> set [ascii ''b'', ascii ''a'', ascii ''c'', ascii ''a'', ascii ''b'', ascii ''d'']
         - set (top_terms 2 [ascii ''b'', ascii ''a'', ascii ''c'', ascii ''a'', ascii ''b'', ascii ''d''])
   \<and> ascii ''a'' \<in> set (top_terms 2 [ascii ''b'', ascii ''a'', ascii ''c'', ascii ''a'', ascii ''b'', ascii ''d''])
   \<and> occurrences [ascii ''b'', ascii ''a'', ascii ''c'', ascii ''a'', ascii ''b'', ascii ''d''] (ascii ''c'')
       \<le> occurrences [ascii ''b'', ascii ''a'', ascii ''c'', ascii ''a'', ascii ''b'', ascii ''d''] (ascii ''a'')"
proof -
  have a: "top_terms 2 [ascii ''b'', ascii ''a'', ascii ''c'', ascii ''a'', ascii ''b'', ascii ''d''] = [ascii ''b'', ascii ''a'']"
    by code_simp
  have b: "top_terms 3 [ascii ''b'', ascii ''a'', ascii ''c'', ascii ''a'', ascii ''b'', ascii ''d''] = [ascii ''b'', ascii ''a'', ascii ''c'']"
    by code_simp
  have c: "ascii ''c'' \<in> set [ascii ''b'', ascii ''a'', ascii ''c'', ascii ''a'', ascii ''b'', ascii ''d'']
             - set (top_terms 2 [ascii ''b'', ascii ''a'', ascii ''c'', ascii ''a'', ascii ''b'', ascii ''d''])"
    by (simp only: a) simp
  have d: "ascii ''a'' \<in> set (top_terms 2 [ascii ''b'', ascii ''a'', ascii ''c'', ascii ''a'', ascii ''b'', ascii ''d''])"
    by (simp only: a) simp
  have "occurrences [ascii ''b'', ascii ''a'', ascii ''c'', ascii ''a'', ascii ''b'', ascii ''d''] (ascii ''c'')
       \<le> occurrences [ascii ''b'', ascii ''a'', ascii ''c'', ascii ''a'', ascii ''b'', ascii ''d''] (ascii ''a'')"
    using top_terms_most_common [of 2 "[ascii ''b'', ascii ''a'', ascii ''c'', ascii ''a'', ascii ''b'', ascii ''d'']"] c d
    by blast
  then show ?thesis
    using a b c d by (intro conjI)
qed

section \<open>Processing the documents\<close>































end
